theory Spec2Isabelle
  imports Main "HOL-Library.Word"
begin

unbundle bit_operations_syntax

section \<open>BTreeIndex.cc: the index over a paged file\<close>

text \<open>
  A shallow embedding of \<^verbatim>\<open>Project2A/604251044/BTreeIndex.cc\<close>. The C++ \<^verbatim>\<open>int\<close>
  (also \<^verbatim>\<open>RC\<close> and \<^verbatim>\<open>PageId\<close>, both typedefs of \<^verbatim>\<open>int\<close>) is a 32-bit word read as two's
  complement: comparisons are the signed ones (\<open><s\<close>, \<open>\<le>s\<close>) and \<^verbatim>\<open>++\<close> wraps around.
  A page and the index's \<^verbatim>\<open>buffer\<close> are lists of bytes.
\<close>

subsection \<open>Data\<close>

type_synonym byte = "8 word"
type_synonym c_int = "32 word"
type_synonym RC = c_int
type_synonym PageId = c_int

record RecordId =
  rid_pid :: PageId
  rid_sid :: c_int

record IndexCursor =
  pid :: PageId
  eid :: c_int

text \<open>
  The members of \<^verbatim>\<open>class BTreeIndex\<close>: the page file \<^verbatim>\<open>pf\<close>, \<^verbatim>\<open>rootPid\<close>, \<^verbatim>\<open>treeHeight\<close>
  and the scratch \<^verbatim>\<open>buffer\<close> of one page. The type of the page file is a parameter.
\<close>

record 'pf BTreeIndex =
  pf :: 'pf
  rootPid :: PageId
  treeHeight :: c_int
  buffer :: "byte list"

text \<open>
  Modelled from the spec: the error codes of the course framework's header, which is not
  part of the sources. \<^verbatim>\<open>BTreeIndex.cc\<close> names \<^verbatim>\<open>RC_INVALID_CURSOR\<close> in its code and
  \<^verbatim>\<open>RC_NO_SUCH_RECORD\<close> in a comment; the others stand for the spec's \<open>IOError\<close> (a page
  that cannot be read or written) and \<open>InvalidIndex\<close>. Only that they are negative and
  pairwise distinct is used.
\<close>

definition RC_FILE_WRITE_FAILED :: RC where "RC_FILE_WRITE_FAILED = - 1005"
definition RC_INVALID_FILE_MODE :: RC where "RC_INVALID_FILE_MODE = - 1006"
definition RC_INVALID_PID :: RC where "RC_INVALID_PID = - 1007"
definition RC_INVALID_CURSOR :: RC where "RC_INVALID_CURSOR = - 1011"
definition RC_NO_SUCH_RECORD :: RC where "RC_NO_SUCH_RECORD = - 1012"
definition RC_INVALID_INDEX :: RC where "RC_INVALID_INDEX = - 1015"

text \<open>
  Modelled from the spec: \<^verbatim>\<open>PageFile::PAGE_SIZE\<close>, the fixed size of a page and of
  \<^verbatim>\<open>buffer\<close>; the declaration is not part of the sources.
\<close>

definition PAGE_SIZE :: nat where "PAGE_SIZE = 1024"

subsection \<open>memcpy of an int into and out of a buffer\<close>

text \<open>
  \<^verbatim>\<open>memcpy(buffer + off, &x, sizeof(int))\<close> and \<^verbatim>\<open>memcpy(&x, buffer + off, sizeof(int))\<close>
  with a 4-byte \<^verbatim>\<open>int\<close>, least significant byte first.
\<close>

definition int_bytes :: "c_int \<Rightarrow> byte list" where
  "int_bytes w = [ucast w, ucast (drop_bit 8 w), ucast (drop_bit 16 w), ucast (drop_bit 24 w)]"

definition bytes_int :: "byte list \<Rightarrow> c_int" where
  "bytes_int bs = ucast (bs ! 0) OR push_bit 8 (ucast (bs ! 1))
                  OR push_bit 16 (ucast (bs ! 2)) OR push_bit 24 (ucast (bs ! 3))"

definition memcpy_to :: "byte list \<Rightarrow> nat \<Rightarrow> c_int \<Rightarrow> byte list" where
  "memcpy_to buf off w = take off buf @ int_bytes w @ drop (off + 4) buf"

definition memcpy_from :: "byte list \<Rightarrow> nat \<Rightarrow> c_int" where
  "memcpy_from buf off = bytes_int (take 4 (drop off buf))"

subsection \<open>The collaborators, as parameters\<close>

text \<open>
  \<^verbatim>\<open>PageFile\<close> belongs to the course framework and is not part of the sources. Its member
  functions are parameters of the model. \<^verbatim>\<open>read\<close> is a const member: it fills the caller's
  buffer and leaves the page file as it is; \<^verbatim>\<open>open\<close>, \<^verbatim>\<open>write\<close> and \<^verbatim>\<open>close\<close> return
  the page file they leave behind.
\<close>

record 'pf PageFile_ops =
  pf_open :: "'pf \<Rightarrow> string \<Rightarrow> char \<Rightarrow> RC \<times> 'pf"
  pf_close :: "'pf \<Rightarrow> RC \<times> 'pf"
  pf_endPid :: "'pf \<Rightarrow> PageId"
  pf_read :: "'pf \<Rightarrow> PageId \<Rightarrow> byte list \<Rightarrow> RC \<times> byte list"
  pf_write :: "'pf \<Rightarrow> PageId \<Rightarrow> byte list \<Rightarrow> RC \<times> 'pf"

text \<open>
  \<^verbatim>\<open>BTLeafNode\<close> and \<^verbatim>\<open>BTNonLeafNode\<close> (\<^verbatim>\<open>BTreeNode.cc\<close>) are not part of the sources
  either. \<open>leaf_new\<close> and \<open>nonleaf_new\<close> are the default-constructed nodes; \<open>read\<close> takes
  the page id, the page file (by const reference) and the node, and returns the node it
  leaves; the other member functions are observers of the node and return the return code
  together with the value left in their output argument.
\<close>

record ('pf, 'leaf, 'nonleaf) BTreeNode_ops =
  leaf_new :: "'leaf"
  leaf_read :: "PageId \<Rightarrow> 'pf \<Rightarrow> 'leaf \<Rightarrow> RC \<times> 'leaf"
  leaf_locate :: "'leaf \<Rightarrow> c_int \<Rightarrow> RC \<times> c_int"
  leaf_readEntry :: "'leaf \<Rightarrow> c_int \<Rightarrow> c_int \<Rightarrow> RecordId \<Rightarrow> RC \<times> c_int \<times> RecordId"
  leaf_getKeyCount :: "'leaf \<Rightarrow> c_int"
  leaf_getNextNodePtr :: "'leaf \<Rightarrow> PageId"
  nonleaf_new :: "'nonleaf"
  nonleaf_read :: "PageId \<Rightarrow> 'pf \<Rightarrow> 'nonleaf \<Rightarrow> RC \<times> 'nonleaf"
  nonleaf_locateChildPtr :: "'nonleaf \<Rightarrow> c_int \<Rightarrow> RC \<times> PageId"

subsection \<open>The member functions of BTreeIndex\<close>

text \<open>The constructor; \<open>p\<close> is the default-constructed page file member.\<close>

definition BTreeIndex_new :: "'pf \<Rightarrow> 'pf BTreeIndex" where
  "BTreeIndex_new p =
     \<lparr>pf = p, rootPid = - 1, treeHeight = 0, buffer = replicate PAGE_SIZE 0\<rparr>"

definition BTreeIndex_open ::
  "'pf PageFile_ops \<Rightarrow> 'pf BTreeIndex \<Rightarrow> string \<Rightarrow> char \<Rightarrow> RC \<times> 'pf BTreeIndex" where
  "BTreeIndex_open P idx indexname mode =
     (case pf_open P (pf idx) indexname mode of (rc, pf1) \<Rightarrow>
        if rc <s 0 then (rc, idx\<lparr>pf := pf1\<rparr>)
        else if pf_endPid P pf1 = 0 then
          (case pf_write P pf1 0 (buffer idx) of (rc, pf2) \<Rightarrow>
             if rc <s 0 then (rc, idx\<lparr>pf := pf2, rootPid := - 1, treeHeight := 0\<rparr>)
             else (rc, idx\<lparr>pf := pf2, rootPid := - 1, treeHeight := 0\<rparr>))
        else
          (case pf_read P pf1 0 (buffer idx) of (rc, buf) \<Rightarrow>
             if rc <s 0 then (rc, idx\<lparr>pf := pf1, buffer := buf\<rparr>)
             else
               let loadPid = memcpy_from buf 0;
                   loadHeight = memcpy_from buf 4
               in if 0 <s loadPid \<and> 0 \<le>s loadHeight
                  then (rc, idx\<lparr>pf := pf1, rootPid := loadPid, treeHeight := loadHeight,
                                 buffer := buf\<rparr>)
                  else (rc, idx\<lparr>pf := pf1, buffer := buf\<rparr>)))"

text \<open>Both \<^verbatim>\<open>memcpy\<close> calls of \<^verbatim>\<open>close\<close> have the destination \<^verbatim>\<open>buffer\<close>, offset 0.\<close>

definition BTreeIndex_close :: "'pf PageFile_ops \<Rightarrow> 'pf BTreeIndex \<Rightarrow> RC \<times> 'pf BTreeIndex" where
  "BTreeIndex_close P idx =
     (let buf = memcpy_to (memcpy_to (buffer idx) 0 (rootPid idx)) 0 (treeHeight idx)
      in case pf_write P (pf idx) 0 buf of (rc, pf1) \<Rightarrow>
           if rc <s 0 then (rc, idx\<lparr>pf := pf1, buffer := buf\<rparr>)
           else (case pf_close P pf1 of (rc, pf2) \<Rightarrow> (rc, idx\<lparr>pf := pf2, buffer := buf\<rparr>)))"

text \<open>The body of \<^verbatim>\<open>insert\<close> is \<^verbatim>\<open>return 0;\<close>.\<close>

definition BTreeIndex_insert :: "'pf BTreeIndex \<Rightarrow> c_int \<Rightarrow> RecordId \<Rightarrow> RC \<times> 'pf BTreeIndex" where
  "BTreeIndex_insert idx key rid = (0, idx)"

text \<open>
  The \<^verbatim>\<open>while (curHeight != treeHeight)\<close> loop of \<^verbatim>\<open>locate\<close>: \<open>Inl rc\<close> is the early
  \<^verbatim>\<open>return rc\<close>, \<open>Inr nextChild\<close> the exit of the loop. The distance from \<open>curHeight\<close>
  to \<open>treeHeight\<close>, as an unsigned number, goes down with every \<^verbatim>\<open>curHeight++\<close>.
\<close>

function locate_loop ::
  "('pf, 'leaf, 'nonleaf) BTreeNode_ops \<Rightarrow> 'pf \<Rightarrow> c_int \<Rightarrow> c_int \<Rightarrow> c_int \<Rightarrow> PageId \<Rightarrow> 'nonleaf
     \<Rightarrow> RC + PageId" where
  "locate_loop N p searchKey height curHeight nextChild nonLeafNode =
     (if curHeight \<noteq> height then
        (case nonleaf_read N nextChild p nonLeafNode of (rc, node) \<Rightarrow>
           if rc <s 0 then Inl rc
           else (case nonleaf_locateChildPtr N node searchKey of (rc, child) \<Rightarrow>
                   if rc <s 0 then Inl rc
                   else locate_loop N p searchKey height (curHeight + 1) child node))
      else Inr nextChild)"
  by pat_completeness auto
termination
proof (relation "measure (\<lambda>(N, p, searchKey, height, curHeight, nextChild, nonLeafNode).
                            unat (height - curHeight))")
  show "wf (measure (\<lambda>(N :: ('pf, 'leaf, 'nonleaf) BTreeNode_ops, p :: 'pf, searchKey :: c_int,
                        height :: c_int, curHeight :: c_int, nextChild :: PageId,
                        nonLeafNode :: 'nonleaf). unat (height - curHeight)))"
    by simp
next
  fix N :: "('pf, 'leaf, 'nonleaf) BTreeNode_ops" and p :: 'pf and searchKey height curHeight :: c_int
    and nextChild child :: PageId and nonLeafNode node :: 'nonleaf and x :: "RC \<times> 'nonleaf"
    and rc rc' :: RC and y :: "RC \<times> PageId"
  assume "curHeight \<noteq> height"
  then have "height - curHeight \<noteq> 0" by simp
  then have "unat (height - curHeight - 1) < unat (height - curHeight)"
    by (simp add: unat_minus_one unat_gt_0)
  also have "height - curHeight - 1 = height - (curHeight + 1)" by simp
  finally show "((N, p, searchKey, height, curHeight + 1, child, node),
                    (N, p, searchKey, height, curHeight, nextChild, nonLeafNode))
        \<in> measure (\<lambda>(N, p, searchKey, height, curHeight, nextChild, nonLeafNode).
                     unat (height - curHeight))"
    by simp
qed

declare locate_loop.simps [simp del]

definition BTreeIndex_locate ::
  "('pf, 'leaf, 'nonleaf) BTreeNode_ops \<Rightarrow> 'pf BTreeIndex \<Rightarrow> c_int \<Rightarrow> IndexCursor
     \<Rightarrow> RC \<times> 'pf BTreeIndex \<times> IndexCursor" where
  "BTreeIndex_locate N idx searchKey cursor =
     (case locate_loop N (pf idx) searchKey (treeHeight idx) 1 (rootPid idx) (nonleaf_new N) of
        Inl rc \<Rightarrow> (rc, idx, cursor)
      | Inr nextChild \<Rightarrow>
          (case leaf_read N nextChild (pf idx) (leaf_new N) of (rc, leafNode) \<Rightarrow>
             if rc <s 0 then (rc, idx, cursor)
             else (case leaf_locate N leafNode searchKey of (rc, e) \<Rightarrow>
                     if rc <s 0 then (rc, idx, cursor\<lparr>eid := e, pid := nextChild\<rparr>)
                     else (rc, idx, cursor\<lparr>eid := e, pid := nextChild\<rparr>))))"

text \<open>
  \<^verbatim>\<open>readForward\<close>: the leaf is read and the entry fetched before the cursor's page id is
  tested. The result holds the return code, the index, the cursor and the two output
  arguments \<^verbatim>\<open>key\<close> and \<^verbatim>\<open>rid\<close>.
\<close>

definition BTreeIndex_readForward ::
  "('pf, 'leaf, 'nonleaf) BTreeNode_ops \<Rightarrow> 'pf BTreeIndex \<Rightarrow> IndexCursor \<Rightarrow> c_int \<Rightarrow> RecordId
     \<Rightarrow> RC \<times> 'pf BTreeIndex \<times> IndexCursor \<times> c_int \<times> RecordId" where
  "BTreeIndex_readForward N idx cursor key rid =
     (case leaf_read N (pid cursor) (pf idx) (leaf_new N) of (rc, leafNode) \<Rightarrow>
        if rc <s 0 then (rc, idx, cursor, key, rid)
        else (case leaf_readEntry N leafNode (eid cursor) key rid of (rc, key', rid') \<Rightarrow>
                if rc <s 0 then (rc, idx, cursor, key', rid')
                else if pid cursor \<le>s 0 then (RC_INVALID_CURSOR, idx, cursor, key', rid')
                else if eid cursor + 1 <s leaf_getKeyCount N leafNode
                  then (rc, idx, cursor\<lparr>eid := eid cursor + 1\<rparr>, key', rid')
                  else (rc, idx, cursor\<lparr>eid := 0, pid := leaf_getNextNodePtr N leafNode\<rparr>,
                        key', rid')))"

definition getRoot :: "'pf BTreeIndex \<Rightarrow> PageId" where
  "getRoot idx = rootPid idx"

definition getHeight :: "'pf BTreeIndex \<Rightarrow> c_int" where
  "getHeight idx = treeHeight idx"

subsection \<open>The descent, as the specification words it\<close>

text \<open>
  A descent through a given number of internal levels: at each level the internal node at
  the current page is read and \<^verbatim>\<open>locateChildPtr\<close> gives the page of the next level. An
  error of either call ends the descent.
\<close>

primrec descend ::
  "('pf, 'leaf, 'nonleaf) BTreeNode_ops \<Rightarrow> 'pf \<Rightarrow> c_int \<Rightarrow> nat \<Rightarrow> PageId \<Rightarrow> 'nonleaf
     \<Rightarrow> RC + PageId" where
  "descend N p searchKey 0 child node = Inr child"
| "descend N p searchKey (Suc levels) child node =
     (case nonleaf_read N child p node of (rc, node') \<Rightarrow>
        if rc <s 0 then Inl rc
        else (case nonleaf_locateChildPtr N node' searchKey of (rc, child') \<Rightarrow>
                if rc <s 0 then Inl rc
                else descend N p searchKey levels child' node'))"

subsection \<open>A page file and nodes to run the index on\<close>

text \<open>
  Modelled from the spec: the page storage contract (section 6). A page file holds its
  pages in order, \<^verbatim>\<open>endPid\<close> is their number, \<^verbatim>\<open>read\<close> gives a page that exists,
  \<^verbatim>\<open>write\<close> replaces a page or appends the page after the last one, and needs write mode.
  \<open>calls\<close> records the calls that reached the page file.
\<close>

datatype pf_call = Call_open | Call_write PageId | Call_close

record PageFile =
  pages :: "byte list list"
  is_open :: bool
  writable :: bool
  calls :: "pf_call list"

definition PageFile_open :: "PageFile \<Rightarrow> string \<Rightarrow> char \<Rightarrow> RC \<times> PageFile" where
  "PageFile_open f filename mode =
     (if mode = CHR ''r'' \<or> mode = CHR ''w''
      then (0, f\<lparr>is_open := True, writable := (mode = CHR ''w''), calls := calls f @ [Call_open]\<rparr>)
      else (RC_INVALID_FILE_MODE, f\<lparr>calls := calls f @ [Call_open]\<rparr>))"

definition PageFile_close :: "PageFile \<Rightarrow> RC \<times> PageFile" where
  "PageFile_close f = (0, f\<lparr>is_open := False, calls := calls f @ [Call_close]\<rparr>)"

definition PageFile_endPid :: "PageFile \<Rightarrow> PageId" where
  "PageFile_endPid f = of_nat (length (pages f))"

definition PageFile_read :: "PageFile \<Rightarrow> PageId \<Rightarrow> byte list \<Rightarrow> RC \<times> byte list" where
  "PageFile_read f p buf =
     (if is_open f \<and> 0 \<le>s p \<and> p <s PageFile_endPid f then (0, pages f ! unat p)
      else (RC_INVALID_PID, buf))"

definition PageFile_write :: "PageFile \<Rightarrow> PageId \<Rightarrow> byte list \<Rightarrow> RC \<times> PageFile" where
  "PageFile_write f p buf =
     (let g = f\<lparr>calls := calls f @ [Call_write p]\<rparr>
      in if \<not> (is_open f \<and> writable f) then (RC_FILE_WRITE_FAILED, g)
         else if p <s 0 \<or> PageFile_endPid f <s p then (RC_INVALID_PID, g)
         else if p = PageFile_endPid f then (0, g\<lparr>pages := pages f @ [buf]\<rparr>)
         else (0, g\<lparr>pages := (pages f)[unat p := buf]\<rparr>))"

definition PageFile_impl :: "PageFile PageFile_ops" where
  "PageFile_impl = \<lparr>pf_open = PageFile_open, pf_close = PageFile_close,
     pf_endPid = PageFile_endPid, pf_read = PageFile_read, pf_write = PageFile_write\<rparr>"

text \<open>
  Modelled from the spec: the leaf node contract (section 4.1); \<^verbatim>\<open>BTreeNode.cc\<close> is not
  part of the sources. A node is the image of its page. The layout is the model's own,
  the specification leaves it open: the entry count in bytes 0 to 3, the next-leaf
  pointer in bytes 4 to 7, then the entries, 12 bytes each (key, record page, record slot).
  \<^verbatim>\<open>locate\<close> gives the first entry whose key is not below the search key, and
  \<open>NotFound\<close> unless that entry holds the search key.
\<close>

definition BTLeafNode_read :: "PageId \<Rightarrow> PageFile \<Rightarrow> byte list \<Rightarrow> RC \<times> byte list" where
  "BTLeafNode_read p f node = PageFile_read f p node"

definition BTLeafNode_getKeyCount :: "byte list \<Rightarrow> c_int" where
  "BTLeafNode_getKeyCount node = memcpy_from node 0"

definition BTLeafNode_getNextNodePtr :: "byte list \<Rightarrow> PageId" where
  "BTLeafNode_getNextNodePtr node = memcpy_from node 4"

definition BTLeafNode_key :: "byte list \<Rightarrow> nat \<Rightarrow> c_int" where
  "BTLeafNode_key node i = memcpy_from node (8 + 12 * i)"

definition BTLeafNode_rid :: "byte list \<Rightarrow> nat \<Rightarrow> RecordId" where
  "BTLeafNode_rid node i =
     \<lparr>rid_pid = memcpy_from node (12 + 12 * i), rid_sid = memcpy_from node (16 + 12 * i)\<rparr>"

primrec BTLeafNode_scan :: "byte list \<Rightarrow> c_int \<Rightarrow> nat \<Rightarrow> nat \<Rightarrow> RC \<times> c_int" where
  "BTLeafNode_scan node searchKey 0 i = (RC_NO_SUCH_RECORD, of_nat i)"
| "BTLeafNode_scan node searchKey (Suc n) i =
     (if BTLeafNode_key node i = searchKey then (0, of_nat i)
      else if searchKey <s BTLeafNode_key node i then (RC_NO_SUCH_RECORD, of_nat i)
      else BTLeafNode_scan node searchKey n (Suc i))"

definition BTLeafNode_locate :: "byte list \<Rightarrow> c_int \<Rightarrow> RC \<times> c_int" where
  "BTLeafNode_locate node searchKey =
     BTLeafNode_scan node searchKey (nat (sint (BTLeafNode_getKeyCount node))) 0"

definition BTLeafNode_readEntry ::
  "byte list \<Rightarrow> c_int \<Rightarrow> c_int \<Rightarrow> RecordId \<Rightarrow> RC \<times> c_int \<times> RecordId" where
  "BTLeafNode_readEntry node e key rid =
     (if e <s 0 \<or> BTLeafNode_getKeyCount node \<le>s e then (RC_INVALID_INDEX, key, rid)
      else (0, BTLeafNode_key node (unat e), BTLeafNode_rid node (unat e)))"

text \<open>
  Modelled from the spec: the internal node contract (section 4.2). The key count in bytes
  0 to 3, the first child in bytes 4 to 7, then pairs of a key and the child to its right.
  \<^verbatim>\<open>locateChildPtr\<close> gives the child to the left of the first key above the search key,
  and the last child when there is no such key.
\<close>

definition BTNonLeafNode_read :: "PageId \<Rightarrow> PageFile \<Rightarrow> byte list \<Rightarrow> RC \<times> byte list" where
  "BTNonLeafNode_read p f node = PageFile_read f p node"

definition BTNonLeafNode_key :: "byte list \<Rightarrow> nat \<Rightarrow> c_int" where
  "BTNonLeafNode_key node i = memcpy_from node (8 + 8 * i)"

definition BTNonLeafNode_child :: "byte list \<Rightarrow> nat \<Rightarrow> PageId" where
  "BTNonLeafNode_child node i = memcpy_from node (4 + 8 * i)"

primrec BTNonLeafNode_scan :: "byte list \<Rightarrow> c_int \<Rightarrow> nat \<Rightarrow> nat \<Rightarrow> PageId" where
  "BTNonLeafNode_scan node searchKey 0 i = BTNonLeafNode_child node i"
| "BTNonLeafNode_scan node searchKey (Suc n) i =
     (if searchKey <s BTNonLeafNode_key node i then BTNonLeafNode_child node i
      else BTNonLeafNode_scan node searchKey n (Suc i))"

definition BTNonLeafNode_locateChildPtr :: "byte list \<Rightarrow> c_int \<Rightarrow> RC \<times> PageId" where
  "BTNonLeafNode_locateChildPtr node searchKey =
     (0, BTNonLeafNode_scan node searchKey (nat (sint (memcpy_from node 0))) 0)"

definition BTreeNode_impl :: "(PageFile, byte list, byte list) BTreeNode_ops" where
  "BTreeNode_impl = \<lparr>leaf_new = replicate PAGE_SIZE 0, leaf_read = BTLeafNode_read,
     leaf_locate = BTLeafNode_locate, leaf_readEntry = BTLeafNode_readEntry,
     leaf_getKeyCount = BTLeafNode_getKeyCount, leaf_getNextNodePtr = BTLeafNode_getNextNodePtr,
     nonleaf_new = replicate PAGE_SIZE 0, nonleaf_read = BTNonLeafNode_read,
     nonleaf_locateChildPtr = BTNonLeafNode_locateChildPtr\<rparr>"

subsection \<open>Example files\<close>

text \<open>A page that starts with the given ints and is zero after them.\<close>

definition page_of :: "c_int list \<Rightarrow> byte list" where
  "page_of ws = concat (map int_bytes ws) @ replicate (PAGE_SIZE - 4 * length ws) 0"

text \<open>
  The tree of the specification's scenario (keys 10 to 50, split into two leaves): page 0
  is the metadata (root 3, height 2), pages 1 and 2 are the leaves \<open>[10, 20, 30]\<close> and
  \<open>[40, 50]\<close>, page 3 is the root with the key 40 between them.
\<close>

definition example_file :: PageFile where
  "example_file = \<lparr>pages = [page_of [3, 2],
                             page_of [3, 2, 10, 0, 0, 20, 0, 1, 30, 0, 2],
                             page_of [2, 0, 40, 0, 3, 50, 0, 4],
                             page_of [1, 1, 40, 2]],
                    is_open = False, writable = False, calls = []\<rparr>"

text \<open>A file that does not exist yet, and a file whose page 0 is zero.\<close>

definition new_file :: PageFile where
  "new_file = \<lparr>pages = [], is_open = False, writable = False, calls = []\<rparr>"

definition zero_file :: PageFile where
  "zero_file = \<lparr>pages = [page_of []], is_open = False, writable = False, calls = []\<rparr>"

text \<open>
  The index after \<^verbatim>\<open>open\<close> on the example file in the given mode, and after \<^verbatim>\<open>open\<close>
  in write mode on the file that does not exist yet.
\<close>

definition example_index :: "char \<Rightarrow> PageFile BTreeIndex" where
  "example_index mode =
     snd (BTreeIndex_open PageFile_impl (BTreeIndex_new example_file) ''example.idx'' mode)"

definition empty_index :: "PageFile BTreeIndex" where
  "empty_index = snd (BTreeIndex_open PageFile_impl (BTreeIndex_new new_file) ''new.idx'' CHR ''w'')"

text \<open>
  An index object that is used again: it was opened on the example file in write mode and
  closed, and its page file member now stands for another file, whose page 0 is zero.
\<close>

definition reused_index :: "PageFile BTreeIndex" where
  "reused_index = (snd (BTreeIndex_close PageFile_impl (example_index CHR ''w'')))\<lparr>pf := zero_file\<rparr>"

section \<open>Auxiliary facts\<close>

lemmas PageFile_defs = PageFile_impl_def PageFile_open_def PageFile_close_def PageFile_endPid_def
  PageFile_read_def PageFile_write_def
lemmas signed_defs = word_sless_alt word_sle_eq

lemma RC_INVALID_CURSOR_negative: "RC_INVALID_CURSOR <s 0"
  by (simp add: RC_INVALID_CURSOR_def word_sless_alt)

lemma bytes_int_int_bytes: "bytes_int (int_bytes w) = w"
  unfolding bytes_int_def int_bytes_def
  apply simp
  apply (rule bit_word_eqI)
  subgoal for n
    apply (cases "n < 8"; cases "n < 16"; cases "n < 24")
           apply (auto simp add: bit_simps)
    done
  done

lemma length_int_bytes: "length (int_bytes w) = 4"
  by (simp add: int_bytes_def)

lemma take_drop_concat_int_bytes:
  "i < length ws \<Longrightarrow> take 4 (drop (4 * i) (concat (map int_bytes ws) @ rest)) = int_bytes (ws ! i)"
proof (induction ws arbitrary: i)
  case Nil
  then show ?case by simp
next
  case (Cons w ws)
  show ?case
  proof (cases i)
    case 0
    then show ?thesis by (simp add: length_int_bytes)
  next
    case (Suc j)
    with Cons.prems have "j < length ws" by simp
    from Cons.IH [OF this] Suc show ?thesis by (simp add: length_int_bytes)
  qed
qed

lemma memcpy_from_page_of:
  "i < length ws \<Longrightarrow> memcpy_from (page_of ws) (4 * i) = ws ! i"
  unfolding memcpy_from_def page_of_def
  by (simp only: take_drop_concat_int_bytes bytes_int_int_bytes)

lemma example_index_r: "example_index CHR ''r'' =
  \<lparr>pf = example_file\<lparr>is_open := True, writable := False, calls := [Call_open]\<rparr>,
   rootPid = 3, treeHeight = 2, buffer = page_of [3, 2]\<rparr>"
  using memcpy_from_page_of [of 0 "[3, 2]"] memcpy_from_page_of [of 1 "[3, 2]"]
  by (simp add: example_index_def BTreeIndex_open_def BTreeIndex_new_def example_file_def PageFile_defs signed_defs)

lemma empty_index_eq: "empty_index =
  \<lparr>pf = \<lparr>pages = [replicate PAGE_SIZE 0], is_open = True, writable = True, calls = [Call_open, Call_write 0]\<rparr>,
   rootPid = - 1, treeHeight = 0, buffer = replicate PAGE_SIZE 0\<rparr>"
  by (simp add: empty_index_def BTreeIndex_open_def BTreeIndex_new_def new_file_def PageFile_defs signed_defs)

lemma locate_loop_descend:
  "locate_loop N p searchKey height curHeight nextChild node
     = descend N p searchKey (unat (height - curHeight)) nextChild node"
proof (induction "unat (height - curHeight)" arbitrary: curHeight nextChild node)
  case 0
  then have "curHeight = height" by (simp add: unat_eq_0)
  then show ?case by (simp add: locate_loop.simps)
next
  case (Suc n)
  then have ne: "curHeight \<noteq> height" by auto
  then have "height - curHeight \<noteq> 0" by simp
  then have "unat (height - curHeight - 1) = unat (height - curHeight) - 1"
    by (rule unat_minus_one)
  also have "\<dots> = n" using Suc.hyps(2) by simp
  also have "height - curHeight - 1 = height - (curHeight + 1)" by simp
  finally have n: "n = unat (height - (curHeight + 1))" by (rule sym)
  have step: "\<And>child node'. locate_loop N p searchKey height (curHeight + 1) child node'
      = descend N p searchKey n child node'"
    using Suc.hyps(1) [OF n] by (simp only: n [symmetric])
  show ?case
    apply (subst locate_loop.simps)
    apply (simp only: Suc.hyps(2) [symmetric] descend.simps)
    apply (simp add: ne step split: prod.splits)
    done
qed

lemma levels_of_height:
  assumes "1 \<le>s (h :: c_int)"
  shows "unat (h - 1) = nat (sint h - 1)"
proof -
  from assms have pos: "1 \<le> sint h" by (simp add: word_sle_eq)
  have "sint h < 2 ^ 31" using sint_lt [of h] by simp
  with pos have "take_bit 32 (sint h) = sint h"
    by (intro take_bit_int_eq_self) simp_all
  then have u: "uint h = sint h" using uint_sint [of h] by simp
  from pos have "h \<noteq> 0" by auto
  then have "unat (h - 1) = unat h - 1" by (rule unat_minus_one)
  also have "\<dots> = nat (sint h - 1)" using u [symmetric] pos by (simp add: nat_diff_distrib')
  finally show ?thesis .
qed

lemma example_index_w: "example_index CHR ''w'' =
  \<lparr>pf = example_file\<lparr>is_open := True, writable := True, calls := [Call_open]\<rparr>,
   rootPid = 3, treeHeight = 2, buffer = page_of [3, 2]\<rparr>"
  using memcpy_from_page_of [of 0 "[3, 2]"] memcpy_from_page_of [of 1 "[3, 2]"]
  by (simp add: example_index_def BTreeIndex_open_def BTreeIndex_new_def example_file_def PageFile_defs signed_defs)

lemma locate_first_read_fails:
  assumes "treeHeight idx \<noteq> 1"
    and "nonleaf_read N (rootPid idx) (pf idx) (nonleaf_new N) = (rc, node)"
    and "rc <s 0"
  shows "BTreeIndex_locate N idx searchKey cursor = (rc, idx, cursor)"
  using assms
  by (simp add: BTreeIndex_locate_def locate_loop.simps [of N "pf idx" searchKey "treeHeight idx" 1])

section \<open>Opening an index\<close>

text \<open>
  C9. On the first \<^verbatim>\<open>open\<close> of an index file that does not exist yet (the page file opens
  and reports zero pages) the index becomes the empty tree: \<^verbatim>\<open>rootPid\<close> is the sentinel
  -1, \<^verbatim>\<open>treeHeight\<close> is 0, the buffer is written to page 0, and \<^verbatim>\<open>open\<close> returns what that
  write returned; \<^verbatim>\<open>getRoot\<close> then gives -1 and \<^verbatim>\<open>getHeight\<close> gives 0.
\<close>

theorem open_new_file_initializes_empty_tree:
  assumes "pf_open P (pf idx) indexname mode = (rc0, pf1)"
    and "\<not> rc0 <s 0"
    and "pf_endPid P pf1 = 0"
    and "pf_write P pf1 0 (buffer idx) = (rc1, pf2)"
  shows "BTreeIndex_open P idx indexname mode = (rc1, idx\<lparr>pf := pf2, rootPid := - 1, treeHeight := 0\<rparr>)
         \<and> getRoot (snd (BTreeIndex_open P idx indexname mode)) = - 1
         \<and> getHeight (snd (BTreeIndex_open P idx indexname mode)) = 0"
  using assms by (simp add: BTreeIndex_open_def getRoot_def getHeight_def)

theorem open_new_file_initializes_empty_tree_witness:
  "BTreeIndex_open PageFile_impl (BTreeIndex_new new_file) ''new.idx'' CHR ''w''
     = (0, \<lparr>pf = \<lparr>pages = [replicate PAGE_SIZE 0], is_open = True, writable = True,
                    calls = [Call_open, Call_write 0]\<rparr>,
            rootPid = - 1, treeHeight = 0, buffer = replicate PAGE_SIZE 0\<rparr>)
   \<and> getRoot (snd (BTreeIndex_open PageFile_impl (BTreeIndex_new new_file) ''new.idx'' CHR ''w'')) = - 1
   \<and> getHeight (snd (BTreeIndex_open PageFile_impl (BTreeIndex_new new_file) ''new.idx'' CHR ''w'')) = 0"
proof -
  let ?f1 = "new_file\<lparr>is_open := True, writable := True, calls := [Call_open]\<rparr>"
  let ?f2 = "\<lparr>pages = [replicate PAGE_SIZE 0], is_open = True, writable = True,
              calls = [Call_open, Call_write 0]\<rparr>"
  have h1: "pf_open PageFile_impl (pf (BTreeIndex_new new_file)) ''new.idx'' CHR ''w'' = (0, ?f1)"
    by (simp add: PageFile_defs BTreeIndex_new_def new_file_def)
  have h2: "\<not> (0 :: RC) <s 0" by simp
  have h3: "pf_endPid PageFile_impl ?f1 = 0"
    by (simp add: PageFile_defs new_file_def)
  have h4: "pf_write PageFile_impl ?f1 0 (buffer (BTreeIndex_new new_file)) = (0, ?f2)"
    by (simp add: PageFile_defs BTreeIndex_new_def new_file_def)
  from open_new_file_initializes_empty_tree [OF h1 h2 h3 h4] show ?thesis
    by (simp add: BTreeIndex_new_def getRoot_def getHeight_def)
qed

text \<open>
  C8. The claim is that \<^verbatim>\<open>open\<close>, on reading a page 0 whose \<^verbatim>\<open>rootPid\<close> is not above 0 or
  whose \<^verbatim>\<open>treeHeight\<close> is below 0, leaves the index with the defaults of an empty tree
  (-1 and 0). The branch for a file without pages assigns these defaults; the branch that
  loads page 0 assigns nothing when the loaded values are refused. On the index object that
  is used again, \<^verbatim>\<open>open\<close> reads the zero page 0 (loaded \<^verbatim>\<open>rootPid\<close> 0) and succeeds, and
  the index still has the root 3 and the height 2 of the file it was opened on before. A
  new index object on the same file has the defaults.
\<close>

theorem open_refused_metadata_keeps_stale_root:
  "getRoot reused_index = 3
   \<and> getHeight reused_index = 2
   \<and> memcpy_from (pages (pf reused_index) ! 0) 0 = 0
   \<and> fst (BTreeIndex_open PageFile_impl reused_index ''zero.idx'' CHR ''w'') = 0
   \<and> getRoot (snd (BTreeIndex_open PageFile_impl reused_index ''zero.idx'' CHR ''w'')) = 3
   \<and> getHeight (snd (BTreeIndex_open PageFile_impl reused_index ''zero.idx'' CHR ''w'')) = 2
   \<and> getRoot (snd (BTreeIndex_open PageFile_impl (BTreeIndex_new zero_file) ''zero.idx'' CHR ''w'')) = - 1
   \<and> getHeight (snd (BTreeIndex_open PageFile_impl (BTreeIndex_new zero_file) ''zero.idx'' CHR ''w'')) = 0"
  by code_simp

section \<open>Closing an index\<close>

text \<open>
  C4, as amended. \<^verbatim>\<open>close\<close> copies into the buffer and writes the buffer to page 0. If that
  write fails, \<^verbatim>\<open>close\<close> returns the code of the write at once, and the page file is the
  one the failed write left: the storage's \<^verbatim>\<open>close\<close> is not called. If the write succeeds,
  the storage is closed and \<^verbatim>\<open>close\<close> returns the code of the storage's \<^verbatim>\<open>close\<close>.
\<close>

theorem close_writes_then_closes:
  assumes "pf_write P (pf idx) 0 (memcpy_to (memcpy_to (buffer idx) 0 (rootPid idx)) 0 (treeHeight idx))
             = (rc1, pf1)"
  shows "(rc1 <s 0 \<longrightarrow>
            BTreeIndex_close P idx
              = (rc1, idx\<lparr>pf := pf1,
                   buffer := memcpy_to (memcpy_to (buffer idx) 0 (rootPid idx)) 0 (treeHeight idx)\<rparr>))
       \<and> (\<not> rc1 <s 0 \<longrightarrow>
            BTreeIndex_close P idx
              = (fst (pf_close P pf1), idx\<lparr>pf := snd (pf_close P pf1),
                   buffer := memcpy_to (memcpy_to (buffer idx) 0 (rootPid idx)) 0 (treeHeight idx)\<rparr>))"
  using assms by (simp add: BTreeIndex_close_def Let_def split: prod.splits)

theorem close_writes_then_closes_witness:
  "RC_FILE_WRITE_FAILED <s 0
   \<and> BTreeIndex_close PageFile_impl (example_index CHR ''r'')
       = (RC_FILE_WRITE_FAILED,
          (example_index CHR ''r'')
            \<lparr>pf := (pf (example_index CHR ''r''))\<lparr>calls := [Call_open, Call_write 0]\<rparr>,
             buffer := memcpy_to (memcpy_to (buffer (example_index CHR ''r'')) 0
                                    (rootPid (example_index CHR ''r''))) 0
                         (treeHeight (example_index CHR ''r''))\<rparr>)
   \<and> fst (BTreeIndex_close PageFile_impl (example_index CHR ''w'')) = 0
   \<and> calls (pf (snd (BTreeIndex_close PageFile_impl (example_index CHR ''w''))))
       = [Call_open, Call_write 0, Call_close]"
proof -
  let ?r = "example_index CHR ''r''"
  let ?w = "example_index CHR ''w''"
  let ?bufr = "memcpy_to (memcpy_to (buffer ?r) 0 (rootPid ?r)) 0 (treeHeight ?r)"
  let ?bufw = "memcpy_to (memcpy_to (buffer ?w) 0 (rootPid ?w)) 0 (treeHeight ?w)"
  let ?w1 = "snd (pf_write PageFile_impl (pf ?w) 0 ?bufw)"
  have neg: "RC_FILE_WRITE_FAILED <s 0" by code_simp
  have ok: "\<not> (0 :: RC) <s 0" by simp
  have r1: "pf_write PageFile_impl (pf ?r) 0 ?bufr
              = (RC_FILE_WRITE_FAILED, (pf ?r)\<lparr>calls := [Call_open, Call_write 0]\<rparr>)"
    by (simp add: PageFile_defs example_index_r Let_def)
  have w1: "pf_write PageFile_impl (pf ?w) 0 ?bufw = (0, ?w1)"
    by (simp add: PageFile_defs example_index_w example_file_def Let_def signed_defs)
  have w2: "fst (pf_close PageFile_impl ?w1) = 0"
    by (simp add: PageFile_defs)
  have w3: "calls (snd (pf_close PageFile_impl ?w1)) = [Call_open, Call_write 0, Call_close]"
    by (simp add: PageFile_defs example_index_w example_file_def Let_def signed_defs)
  from close_writes_then_closes [OF r1] neg
  have a: "BTreeIndex_close PageFile_impl ?r
             = (RC_FILE_WRITE_FAILED, ?r\<lparr>pf := (pf ?r)\<lparr>calls := [Call_open, Call_write 0]\<rparr>, buffer := ?bufr\<rparr>)"
    by blast
  from close_writes_then_closes [OF w1] ok
  have b: "BTreeIndex_close PageFile_impl ?w
             = (fst (pf_close PageFile_impl ?w1), ?w\<lparr>pf := snd (pf_close PageFile_impl ?w1), buffer := ?bufw\<rparr>)"
    by blast
  show ?thesis
    using neg a w2 w3 by (simp add: b)
qed

text \<open>
  C4, as claimed, fails: the claim has \<^verbatim>\<open>close\<close> still attempt to close the storage after
  a failed write. On the example index opened in read mode the write to page 0 fails; the
  page file has then received an open and a write, no close, and is still open.
\<close>

theorem close_write_failure_counterexample:
  "fst (BTreeIndex_close PageFile_impl (example_index CHR ''r'')) = RC_FILE_WRITE_FAILED
   \<and> RC_FILE_WRITE_FAILED <s 0
   \<and> calls (pf (snd (BTreeIndex_close PageFile_impl (example_index CHR ''r''))))
        = [Call_open, Call_write 0]
   \<and> Call_close \<notin> set (calls (pf (snd (BTreeIndex_close PageFile_impl (example_index CHR ''r'')))))
   \<and> is_open (pf (snd (BTreeIndex_close PageFile_impl (example_index CHR ''r''))))"
  by code_simp

text \<open>
  C1. The claim is that after \<^verbatim>\<open>close\<close> page 0 holds \<^verbatim>\<open>rootPid\<close> in bytes 0 to 3 and
  \<^verbatim>\<open>treeHeight\<close> in bytes 4 to 7, so that \<^verbatim>\<open>open\<close>, \<^verbatim>\<open>close\<close>, \<^verbatim>\<open>open\<close> restores both.
  \<^verbatim>\<open>close\<close> copies both to offset 0: on the example index (root 3, height 2), opened in
  write mode, \<^verbatim>\<open>close\<close> succeeds and leaves the height 2 in bytes 0 to 3 of page 0 and in
  bytes 4 to 7 what the buffer held; the next \<^verbatim>\<open>open\<close> succeeds with \<^verbatim>\<open>rootPid\<close> 2, not 3.
\<close>

theorem close_then_open_loses_rootPid:
  "getRoot (example_index CHR ''w'') = 3
   \<and> getHeight (example_index CHR ''w'') = 2
   \<and> fst (BTreeIndex_close PageFile_impl (example_index CHR ''w'')) = 0
   \<and> take 8 (pages (pf (snd (BTreeIndex_close PageFile_impl (example_index CHR ''w'')))) ! 0)
        = [2, 0, 0, 0, 2, 0, 0, 0]
   \<and> fst (BTreeIndex_open PageFile_impl (snd (BTreeIndex_close PageFile_impl (example_index CHR ''w'')))
            ''example.idx'' CHR ''w'') = 0
   \<and> getRoot (snd (BTreeIndex_open PageFile_impl
                      (snd (BTreeIndex_close PageFile_impl (example_index CHR ''w'')))
                      ''example.idx'' CHR ''w'')) = 2
   \<and> getHeight (snd (BTreeIndex_open PageFile_impl
                      (snd (BTreeIndex_close PageFile_impl (example_index CHR ''w'')))
                      ''example.idx'' CHR ''w'')) = 2"
  by code_simp

section \<open>Searching and reading forward\<close>

text \<open>
  C10. \<^verbatim>\<open>locate\<close> and \<^verbatim>\<open>readForward\<close> leave \<^verbatim>\<open>rootPid\<close> and \<^verbatim>\<open>treeHeight\<close> as they are,
  for every index, every node implementation and every input, whether the call succeeds or
  fails: \<^verbatim>\<open>getRoot\<close> and \<^verbatim>\<open>getHeight\<close> give the same values before and after.
\<close>

theorem locate_readForward_keep_root_and_height:
  "getRoot (fst (snd (BTreeIndex_locate N idx searchKey cursor))) = getRoot idx
   \<and> getHeight (fst (snd (BTreeIndex_locate N idx searchKey cursor))) = getHeight idx
   \<and> getRoot (fst (snd (BTreeIndex_readForward N idx cursor key rid))) = getRoot idx
   \<and> getHeight (fst (snd (BTreeIndex_readForward N idx cursor key rid))) = getHeight idx"
  by (simp add: BTreeIndex_locate_def BTreeIndex_readForward_def split: sum.splits prod.splits)

text \<open>
  C3. On a tree of height at least 1, \<^verbatim>\<open>locate\<close> descends from the root through exactly
  \<^verbatim>\<open>treeHeight - 1\<close> internal levels, with a node read and a \<^verbatim>\<open>locateChildPtr\<close> at each,
  reads the leaf it arrives at and searches it. When the descent and the read of the leaf
  succeed, \<^verbatim>\<open>locate\<close> returns the code of the search in the leaf and sets the cursor to the
  page of the leaf and the entry index the search left: on success (the key is found) its
  entry, on \<open>NotFound\<close> (the key is absent) the insertion point, as the leaf reports it.
\<close>

theorem locate_descends_then_searches_leaf:
  assumes "1 \<le>s treeHeight idx"
    and "descend N (pf idx) searchKey (nat (sint (treeHeight idx) - 1)) (rootPid idx) (nonleaf_new N)
           = Inr leafPid"
    and "leaf_read N leafPid (pf idx) (leaf_new N) = (rc1, leafNode)"
    and "\<not> rc1 <s 0"
    and "leaf_locate N leafNode searchKey = (rc, e)"
  shows "BTreeIndex_locate N idx searchKey cursor = (rc, idx, \<lparr>pid = leafPid, eid = e\<rparr>)"
  using assms
  by (simp add: BTreeIndex_locate_def locate_loop_descend levels_of_height)

theorem locate_descends_then_searches_leaf_witness:
  "1 \<le>s treeHeight (example_index CHR ''r'')
   \<and> BTreeIndex_locate BTreeNode_impl (example_index CHR ''r'') 25 \<lparr>pid = 0, eid = 0\<rparr>
        = (RC_NO_SUCH_RECORD, example_index CHR ''r'', \<lparr>pid = 1, eid = 2\<rparr>)
   \<and> BTreeIndex_locate BTreeNode_impl (example_index CHR ''r'') 40 \<lparr>pid = 0, eid = 0\<rparr>
        = (0, example_index CHR ''r'', \<lparr>pid = 2, eid = 0\<rparr>)"
proof -
  let ?idx = "example_index CHR ''r''"
  let ?leaf1 = "page_of [3, 2, 10, 0, 0, 20, 0, 1, 30, 0, 2]"
  let ?leaf2 = "page_of [2, 0, 40, 0, 3, 50, 0, 4]"
  have h: "1 \<le>s treeHeight ?idx" by code_simp
  have ok: "\<not> (0 :: RC) <s 0" by simp
  have d25: "descend BTreeNode_impl (pf ?idx) 25 (nat (sint (treeHeight ?idx) - 1)) (rootPid ?idx)
               (nonleaf_new BTreeNode_impl) = Inr 1" by code_simp
  have r1: "leaf_read BTreeNode_impl 1 (pf ?idx) (leaf_new BTreeNode_impl) = (0, ?leaf1)"
    by code_simp
  have l25: "leaf_locate BTreeNode_impl ?leaf1 25 = (RC_NO_SUCH_RECORD, 2)" by code_simp
  have d40: "descend BTreeNode_impl (pf ?idx) 40 (nat (sint (treeHeight ?idx) - 1)) (rootPid ?idx)
               (nonleaf_new BTreeNode_impl) = Inr 2" by code_simp
  have r2: "leaf_read BTreeNode_impl 2 (pf ?idx) (leaf_new BTreeNode_impl) = (0, ?leaf2)"
    by code_simp
  have l40: "leaf_locate BTreeNode_impl ?leaf2 40 = (0, 0)" by code_simp
  from h locate_descends_then_searches_leaf [OF h d25 r1 ok l25]
    locate_descends_then_searches_leaf [OF h d40 r2 ok l40]
  show ?thesis by blast
qed

text \<open>
  C5, as amended. On an empty tree (\<^verbatim>\<open>rootPid\<close> -1, \<^verbatim>\<open>treeHeight\<close> 0) \<^verbatim>\<open>locate(5, cursor)\<close>
  starts its descent with the read of page -1 as an internal node; when that read fails,
  \<^verbatim>\<open>locate\<close> returns the error code of the read and leaves the cursor as it was.
\<close>

theorem locate_empty_tree_returns_read_error:
  assumes "rootPid idx = - 1" and "treeHeight idx = 0"
    and "nonleaf_read N (- 1) (pf idx) (nonleaf_new N) = (rc, node)"
    and "rc <s 0"
  shows "BTreeIndex_locate N idx 5 cursor = (rc, idx, cursor)"
  using assms by (simp add: locate_first_read_fails)

theorem locate_empty_tree_returns_read_error_witness:
  "rootPid empty_index = - 1 \<and> treeHeight empty_index = 0 \<and> RC_INVALID_PID <s 0
   \<and> BTreeIndex_locate BTreeNode_impl empty_index 5 \<lparr>pid = 7, eid = 7\<rparr>
        = (RC_INVALID_PID, empty_index, \<lparr>pid = 7, eid = 7\<rparr>)"
proof -
  have h1: "rootPid empty_index = - 1" by code_simp
  have h2: "treeHeight empty_index = 0" by code_simp
  have h3: "nonleaf_read BTreeNode_impl (- 1) (pf empty_index) (nonleaf_new BTreeNode_impl)
              = (RC_INVALID_PID, replicate PAGE_SIZE 0)" by code_simp
  have h4: "RC_INVALID_PID <s 0" by code_simp
  from locate_empty_tree_returns_read_error [OF h1 h2 h3 h4] h1 h2 h4 show ?thesis by blast
qed

text \<open>
  C5, as claimed, fails: the claim has \<^verbatim>\<open>locate(5)\<close> on the empty tree return \<open>NotFound\<close>
  with an empty-tree signal. On the empty index the read of page -1 is refused, and
  \<^verbatim>\<open>locate\<close> returns the code of that refusal, which is not the code of \<open>NotFound\<close>, with
  the cursor untouched.
\<close>

theorem locate_empty_tree_counterexample:
  "fst (BTreeIndex_locate BTreeNode_impl empty_index 5 \<lparr>pid = 0, eid = 0\<rparr>) = RC_INVALID_PID
   \<and> fst (BTreeIndex_locate BTreeNode_impl empty_index 5 \<lparr>pid = 0, eid = 0\<rparr>) \<noteq> RC_NO_SUCH_RECORD
   \<and> snd (snd (BTreeIndex_locate BTreeNode_impl empty_index 5 \<lparr>pid = 0, eid = 0\<rparr>)) = \<lparr>pid = 0, eid = 0\<rparr>"
proof -
  have h1: "treeHeight empty_index \<noteq> 1" by code_simp
  have h2: "nonleaf_read BTreeNode_impl (rootPid empty_index) (pf empty_index) (nonleaf_new BTreeNode_impl)
              = (RC_INVALID_PID, replicate PAGE_SIZE 0)" by code_simp
  have h3: "RC_INVALID_PID <s 0" by code_simp
  have h4: "RC_INVALID_PID \<noteq> RC_NO_SUCH_RECORD" by code_simp
  show ?thesis
    using h4 by (simp add: locate_first_read_fails [OF h1 h2 h3])
qed

text \<open>
  C7. When \<^verbatim>\<open>readForward\<close> succeeds, the key and the record id it gives are those that
  \<^verbatim>\<open>readEntry\<close> gave for the cursor's entry of the leaf at the cursor's page, with the same
  return code, and the cursor has moved on: if \<^verbatim>\<open>eid + 1\<close> is below the key count of the
  leaf, \<^verbatim>\<open>eid\<close> is one more; otherwise \<^verbatim>\<open>eid\<close> is 0 and \<^verbatim>\<open>pid\<close> is the next-node pointer
  of the leaf.
\<close>

theorem readForward_success_advances:
  assumes "BTreeIndex_readForward N idx cursor key rid = (rc, idx', cursor', key', rid')"
    and "\<not> rc <s 0"
  shows "leaf_readEntry N (snd (leaf_read N (pid cursor) (pf idx) (leaf_new N))) (eid cursor) key rid
           = (rc, key', rid')
       \<and> cursor' =
           (if eid cursor + 1 <s leaf_getKeyCount N (snd (leaf_read N (pid cursor) (pf idx) (leaf_new N)))
            then cursor\<lparr>eid := eid cursor + 1\<rparr>
            else cursor\<lparr>eid := 0,
                   pid := leaf_getNextNodePtr N (snd (leaf_read N (pid cursor) (pf idx) (leaf_new N)))\<rparr>)"
  using assms RC_INVALID_CURSOR_negative
  by (auto simp add: BTreeIndex_readForward_def split: prod.splits if_splits)

theorem readForward_success_advances_witness:
  "\<not> (0 :: RC) <s 0
   \<and> BTreeIndex_readForward BTreeNode_impl (example_index CHR ''r'') \<lparr>pid = 1, eid = 1\<rparr> 0
         \<lparr>rid_pid = 0, rid_sid = 0\<rparr>
       = (0, example_index CHR ''r'', \<lparr>pid = 1, eid = 2\<rparr>, 20, \<lparr>rid_pid = 0, rid_sid = 1\<rparr>)
   \<and> leaf_readEntry BTreeNode_impl
         (snd (leaf_read BTreeNode_impl (pid \<lparr>pid = 1, eid = 1\<rparr>) (pf (example_index CHR ''r''))
                 (leaf_new BTreeNode_impl)))
         (eid \<lparr>pid = 1, eid = 1\<rparr>) 0 \<lparr>rid_pid = 0, rid_sid = 0\<rparr>
       = (0, 20, \<lparr>rid_pid = 0, rid_sid = 1\<rparr>)
   \<and> BTreeIndex_readForward BTreeNode_impl (example_index CHR ''r'') \<lparr>pid = 1, eid = 2\<rparr> 0
         \<lparr>rid_pid = 0, rid_sid = 0\<rparr>
       = (0, example_index CHR ''r'', \<lparr>pid = 2, eid = 0\<rparr>, 30, \<lparr>rid_pid = 0, rid_sid = 2\<rparr>)
   \<and> leaf_readEntry BTreeNode_impl
         (snd (leaf_read BTreeNode_impl (pid \<lparr>pid = 1, eid = 2\<rparr>) (pf (example_index CHR ''r''))
                 (leaf_new BTreeNode_impl)))
         (eid \<lparr>pid = 1, eid = 2\<rparr>) 0 \<lparr>rid_pid = 0, rid_sid = 0\<rparr>
       = (0, 30, \<lparr>rid_pid = 0, rid_sid = 2\<rparr>)"
proof -
  have ok: "\<not> (0 :: RC) <s 0" by simp
  have a: "BTreeIndex_readForward BTreeNode_impl (example_index CHR ''r'') \<lparr>pid = 1, eid = 1\<rparr> 0
         \<lparr>rid_pid = 0, rid_sid = 0\<rparr>
       = (0, example_index CHR ''r'', \<lparr>pid = 1, eid = 2\<rparr>, 20, \<lparr>rid_pid = 0, rid_sid = 1\<rparr>)"
    by code_simp
  have b: "BTreeIndex_readForward BTreeNode_impl (example_index CHR ''r'') \<lparr>pid = 1, eid = 2\<rparr> 0
         \<lparr>rid_pid = 0, rid_sid = 0\<rparr>
       = (0, example_index CHR ''r'', \<lparr>pid = 2, eid = 0\<rparr>, 30, \<lparr>rid_pid = 0, rid_sid = 2\<rparr>)"
    by code_simp
  from ok a b readForward_success_advances [OF a ok] readForward_success_advances [OF b ok]
  show ?thesis by blast
qed

text \<open>
  C6. The claim is that \<^verbatim>\<open>readForward\<close> fails with \<open>InvalidCursor\<close> for every cursor whose
  page id is not valid. The test \<^verbatim>\<open>cursor.pid <= 0\<close> comes after the read of the leaf and
  the lookup of the entry: with the cursor at page -1 on the example index, the read of
  the leaf is refused and \<^verbatim>\<open>readForward\<close> returns the code of that refusal, which is not
  \<^verbatim>\<open>RC_INVALID_CURSOR\<close>.
\<close>

theorem readForward_invalid_pid_returns_read_error:
  "BTreeIndex_readForward BTreeNode_impl (example_index CHR ''r'') \<lparr>pid = - 1, eid = 0\<rparr> 0
       \<lparr>rid_pid = 0, rid_sid = 0\<rparr>
     = (RC_INVALID_PID, example_index CHR ''r'', \<lparr>pid = - 1, eid = 0\<rparr>, 0, \<lparr>rid_pid = 0, rid_sid = 0\<rparr>)
   \<and> RC_INVALID_PID \<noteq> RC_INVALID_CURSOR"
  by code_simp

section \<open>Inserting\<close>

text \<open>
  C2. The claim is that \<^verbatim>\<open>insert\<close> on an empty tree allocates a leaf page, makes it the
  root and sets \<^verbatim>\<open>treeHeight\<close> to 1. The body of \<^verbatim>\<open>insert\<close> is \<^verbatim>\<open>return 0;\<close>: on the
  empty index, \<^verbatim>\<open>insert(5, rid)\<close> returns 0 and leaves the index as it was, with height 0,
  root -1 and no page after the metadata page.
\<close>

theorem insert_does_nothing:
  "BTreeIndex_insert empty_index 5 \<lparr>rid_pid = 0, rid_sid = 0\<rparr> = (0, empty_index)
   \<and> getHeight empty_index = 0
   \<and> getHeight (snd (BTreeIndex_insert empty_index 5 \<lparr>rid_pid = 0, rid_sid = 0\<rparr>)) = 0
   \<and> getRoot (snd (BTreeIndex_insert empty_index 5 \<lparr>rid_pid = 0, rid_sid = 0\<rparr>)) = - 1
   \<and> length (pages (pf (snd (BTreeIndex_insert empty_index 5 \<lparr>rid_pid = 0, rid_sid = 0\<rparr>)))) = 1"
  by (simp add: BTreeIndex_insert_def empty_index_eq getHeight_def getRoot_def)

end
